theory Spec2Isabelle
  imports Main "HOL-Library.Sublist"
begin

section \<open>Data model\<close>

text \<open>
  The plugin's interfaces (\<^verbatim>\<open>main.ts\<close>, lines 12-29) as records. JavaScript strings are
  modelled as \<^typ>\<open>string\<close>: a \<^typ>\<open>char\<close> is a UTF-16 code unit below 256 (ASCII and Latin-1).
\<close>

record FolderMapping =
  sourcePath :: string
  targetPath :: string

record TermDefinitionPluginSettings =
  apiEndpoint :: string
  apiKey :: string
  folderMappings :: "FolderMapping list"
  defaultGlossaryPath :: string
  llmModel :: string

text \<open>The two fields of the host's \<^verbatim>\<open>TFile\<close> that the plugin reads.\<close>

record TFile =
  path :: string
  basename :: string

definition DEFAULT_SETTINGS :: TermDefinitionPluginSettings where
  "DEFAULT_SETTINGS =
     \<lparr>apiEndpoint = '''', apiKey = '''', folderMappings = [],
      defaultGlossaryPath = ''Glossary'', llmModel = ''''\<rparr>"

section \<open>Folder routing\<close>

text \<open>\<^verbatim>\<open>String.prototype.startsWith\<close> on two strings.\<close>

definition startsWith :: "string \<Rightarrow> string \<Rightarrow> bool" where
  "startsWith s p = (take (length p) s = p)"

text \<open>The \<^verbatim>\<open>for ... of\<close> loop of \<^verbatim>\<open>getTargetFolder\<close> (lines 178-184).\<close>

fun getTargetFolder_loop :: "string \<Rightarrow> FolderMapping list \<Rightarrow> string \<Rightarrow> string" where
  "getTargetFolder_loop src [] dflt = dflt"
| "getTargetFolder_loop src (mapping # rest) dflt =
     (if startsWith src (sourcePath mapping) then targetPath mapping
      else getTargetFolder_loop src rest dflt)"

definition getTargetFolder :: "TermDefinitionPluginSettings \<Rightarrow> TFile option \<Rightarrow> string" where
  "getTargetFolder settings sourceFile =
     (case sourceFile of
        None \<Rightarrow> defaultGlossaryPath settings
      | Some f \<Rightarrow>
          getTargetFolder_loop (path f) (folderMappings settings) (defaultGlossaryPath settings))"

section \<open>JavaScript values\<close>

text \<open>
  Exceptions that the plugin's code can meet. \<open>TypeError\<close> is JavaScript's own;
  \<open>FolderAlreadyExists\<close> and \<open>NoteAlreadyExists\<close> are the rejections of the host's vault;
  \<open>UnsupportedPattern\<close> is the answer of the regular-expression model below for a pattern
  outside the fragment it covers (it is proved never to arise).
\<close>

datatype error = TypeError | UnsupportedPattern | FolderAlreadyExists | NoteAlreadyExists

text \<open>
  \<^verbatim>\<open>JSON.parse(...) as TermDefinition\<close> is an unchecked cast, so the value that flows through
  the pipeline is any JSON value. A number is represented by the two things the code can
  observe of it: whether it is zero (falsy), and its decimal rendering \<^verbatim>\<open>String(n)\<close>.
  An object is the list of its own properties. \<open>JUndefined\<close> is what reading an absent
  property gives.
\<close>

datatype js_value =
    JUndefined
  | JNull
  | JBool bool
  | JNum bool string
  | JStr string
  | JArr "js_value list"
  | JObj "(string \<times> js_value) list"

text \<open>The truthiness test of \<^verbatim>\<open>if (!definition)\<close>.\<close>

fun truthy :: "js_value \<Rightarrow> bool" where
  "truthy JUndefined = False"
| "truthy JNull = False"
| "truthy (JBool b) = b"
| "truthy (JNum zero s) = (\<not> zero)"
| "truthy (JStr s) = (s \<noteq> [])"
| "truthy (JArr xs) = True"
| "truthy (JObj kvs) = True"

text \<open>
  Reading the property \<^verbatim>\<open>term\<close> or \<^verbatim>\<open>definition\<close> of a value. Neither name is defined on a
  built-in prototype, so only an object's own property can give a value; reading a
  property of \<^verbatim>\<open>null\<close> or \<^verbatim>\<open>undefined\<close> throws.
\<close>

fun js_get :: "js_value \<Rightarrow> string \<Rightarrow> error + js_value" where
  "js_get JUndefined k = Inl TypeError"
| "js_get JNull k = Inl TypeError"
| "js_get (JObj kvs) k = Inr (case map_of kvs k of None \<Rightarrow> JUndefined | Some v \<Rightarrow> v)"
| "js_get v k = Inr JUndefined"

text \<open>
  String conversion, as a template literal \<^verbatim>\<open>`${v}`\<close> performs it, and \<^verbatim>\<open>Array.prototype.join\<close>,
  which renders \<^verbatim>\<open>undefined\<close> and \<^verbatim>\<open>null\<close> elements as the empty string. An object parsed from
  JSON renders as \<^verbatim>\<open>[object Object]\<close>, unless it has an own property \<^verbatim>\<open>toString\<close>: that value
  is never callable, the inherited \<^verbatim>\<open>valueOf\<close> returns the object itself, and the conversion
  throws.
\<close>

fun ToString :: "js_value \<Rightarrow> error + string"
and join_element :: "js_value \<Rightarrow> error + string"
and Array_join :: "string \<Rightarrow> js_value list \<Rightarrow> error + string" where
  "ToString JUndefined = Inr ''undefined''"
| "ToString JNull = Inr ''null''"
| "ToString (JBool b) = Inr (if b then ''true'' else ''false'')"
| "ToString (JNum zero s) = Inr s"
| "ToString (JStr s) = Inr s"
| "ToString (JArr xs) = Array_join '','' xs"
| "ToString (JObj kvs) =
     (if ''toString'' \<in> set (map fst kvs) then Inl TypeError else Inr ''[object Object]'')"
| "join_element JUndefined = Inr []"
| "join_element JNull = Inr []"
| "join_element (JBool b) = ToString (JBool b)"
| "join_element (JNum zero s) = ToString (JNum zero s)"
| "join_element (JStr s) = ToString (JStr s)"
| "join_element (JArr xs) = ToString (JArr xs)"
| "join_element (JObj kvs) = ToString (JObj kvs)"
| "Array_join sep [] = Inr []"
| "Array_join sep [x] = join_element x"
| "Array_join sep (x # y # ys) =
     (case join_element x of
        Inl e \<Rightarrow> Inl e
      | Inr s \<Rightarrow>
          (case Array_join sep (y # ys) of
             Inl e \<Rightarrow> Inl e
           | Inr r \<Rightarrow> Inr (s @ sep @ r)))"

text \<open>
  \<^verbatim>\<open>s.replace(search, repl)\<close> for a string \<open>search\<close>: the first occurrence is replaced.
  The two replacement texts the plugin uses contain no \<^verbatim>\<open>$\<close> pattern.
\<close>

fun String_replace :: "string \<Rightarrow> string \<Rightarrow> string \<Rightarrow> string" where
  "String_replace [] search repl = (if search = [] then repl else [])"
| "String_replace (c # cs) search repl =
     (if startsWith (c # cs) search then repl @ drop (length search) (c # cs)
      else c # String_replace cs search repl)"

text \<open>\<^verbatim>\<open>s.split(sep)\<close> for a one-character separator.\<close>

fun String_split :: "char \<Rightarrow> string \<Rightarrow> string list" where
  "String_split sep [] = [[]]"
| "String_split sep (c # cs) =
     (if c = sep then [] # String_split sep cs
      else (case String_split sep cs of
              [] \<Rightarrow> [[c]]
            | s # ss \<Rightarrow> (c # s) # ss))"

section \<open>The host: vault, editor and notifications\<close>

text \<open>
  The state outside the plugin: the folders and the files (path and content) of the
  vault, and the trace of the effects a run has had on the host, in order.
\<close>

datatype effect =
    CreateFolder string
  | CreateFile string string
  | ReplaceSelection string
  | Notice string

record world =
  folders :: "string list"
  files :: "(string \<times> string) list"
  effects :: "effect list"

text \<open>
  Modelled from the spec: the storage collaborator (the host's \<^verbatim>\<open>vault\<close> and its
  \<^verbatim>\<open>adapter\<close>) is not part of the source. Section 6 of the specification gives its
  interface (\<^verbatim>\<open>exists\<close>, \<^verbatim>\<open>createFolder\<close>, \<^verbatim>\<open>createFile\<close>) and section 4.4 its rejection of a
  path that is already occupied. Paths are compared as they are written.
\<close>

definition adapter_exists :: "world \<Rightarrow> string \<Rightarrow> bool" where
  "adapter_exists w p = (p \<in> set (folders w) \<or> p \<in> set (map fst (files w)))"

definition vault_createFolder :: "string \<Rightarrow> world \<Rightarrow> (error + unit) \<times> world" where
  "vault_createFolder p w =
     (if adapter_exists w p then (Inl FolderAlreadyExists, w)
      else (Inr (), w\<lparr>folders := folders w @ [p], effects := effects w @ [CreateFolder p]\<rparr>))"

definition vault_create :: "string \<Rightarrow> string \<Rightarrow> world \<Rightarrow> (error + unit) \<times> world" where
  "vault_create p content w =
     (if adapter_exists w p then (Inl NoteAlreadyExists, w)
      else (Inr (), w\<lparr>files := files w @ [(p, content)],
                       effects := effects w @ [CreateFile p content]\<rparr>))"

definition replaceSelection :: "string \<Rightarrow> world \<Rightarrow> world" where
  "replaceSelection s w = w\<lparr>effects := effects w @ [ReplaceSelection s]\<rparr>"

definition notice :: "string \<Rightarrow> world \<Rightarrow> world" where
  "notice s w = w\<lparr>effects := effects w @ [Notice s]\<rparr>"

section \<open>Folder creation\<close>

text \<open>The loop of \<^verbatim>\<open>ensureFolderExists\<close> (lines 191-197); \<open>currentPath\<close> is its accumulator.\<close>

fun ensureFolderExists_loop ::
  "string list \<Rightarrow> string \<Rightarrow> world \<Rightarrow> (error + unit) \<times> world" where
  "ensureFolderExists_loop [] currentPath w = (Inr (), w)"
| "ensureFolderExists_loop (folder # rest) currentPath w =
     (let currentPath1 = currentPath @ folder in
      if \<not> adapter_exists w currentPath1 then
        (case vault_createFolder currentPath1 w of
           (Inl e, w') \<Rightarrow> (Inl e, w')
         | (Inr u, w') \<Rightarrow> ensureFolderExists_loop rest (currentPath1 @ ''/'') w')
      else ensureFolderExists_loop rest (currentPath1 @ ''/'') w)"

definition ensureFolderExists :: "string \<Rightarrow> world \<Rightarrow> (error + unit) \<times> world" where
  "ensureFolderExists p w = ensureFolderExists_loop (String_split (CHR ''/'') p) [] w"

section \<open>Smart links\<close>

text \<open>
  The character class of line 201, \<^verbatim>\<open>/[.*+?^${}()|[\]\\]/g\<close>, and the global replacement of
  each of its characters by a backslash and the character (\<^verbatim>\<open>"\\$&"\<close>).
\<close>

definition escape_class :: "char \<Rightarrow> bool" where
  "escape_class c = (c \<in> set (''.*+?^${}()|[]'' @ [CHR 0x5C]))"

definition escapeTerm :: "string \<Rightarrow> string" where
  "escapeTerm t = concat (map (\<lambda>c. if escape_class c then [CHR 0x5C, c] else [c]) t)"

text \<open>
  The fragment of ECMAScript's pattern grammar that the plugin's patterns live in: an
  alternative made of word-boundary assertions \<^verbatim>\<open>\b\<close>, identity escapes of a syntax
  character, and pattern characters (any character that is not a syntax character).
  \<open>SyntaxCharacter\<close> is the grammar's production of that name. \<open>RegExp_compile\<close> answers
  \<open>None\<close> for a pattern outside the fragment.
\<close>

datatype re_term = WordBoundary | PatternCharacter char

definition SyntaxCharacter :: "char \<Rightarrow> bool" where
  "SyntaxCharacter c = (c \<in> set (''^$'' @ [CHR 0x5C] @ ''.*+?()[]{}|''))"

fun RegExp_compile :: "string \<Rightarrow> re_term list option" where
  "RegExp_compile [] = Some []"
| "RegExp_compile [c] = (if SyntaxCharacter c then None else Some [PatternCharacter c])"
| "RegExp_compile (c # d # cs) =
     (if c = CHR 0x5C then
        (if d = CHR ''b'' then map_option (Cons WordBoundary) (RegExp_compile cs)
         else if SyntaxCharacter d then
           map_option (Cons (PatternCharacter d)) (RegExp_compile cs)
         else None)
      else if SyntaxCharacter c then None
      else map_option (Cons (PatternCharacter c)) (RegExp_compile (d # cs)))"

text \<open>
  Matching under the flag \<^verbatim>\<open>i\<close> (no \<^verbatim>\<open>u\<close>): code units are compared after \<open>Canonicalize\<close>,
  the code unit of the upper case when that is a single code unit. Below 256 these are:
  \<^verbatim>\<open>a\<close>-\<^verbatim>\<open>z\<close> and the lower-case letters 0xE0-0xFE of Latin-1 (0xF7, the division sign, has no
  case), 32 below; the micro sign 0xB5, whose upper case is U+039C; and 0xFF, whose upper
  case is U+0178. The sharp s 0xDF has the two-unit upper case \<^verbatim>\<open>SS\<close> and stays. The result is
  a code unit number, since two of them lie beyond 255. \<^verbatim>\<open>\b\<close> holds at a position where
  exactly one of the two neighbours is a word character \<^verbatim>\<open>[A-Za-z0-9_]\<close>.
\<close>

definition Canonicalize :: "char \<Rightarrow> nat" where
  "Canonicalize c =
     (let n = (of_char c :: nat) in
      if 97 \<le> n \<and> n \<le> 122 then n - 32
      else if 224 \<le> n \<and> n \<le> 254 \<and> n \<noteq> 247 then n - 32
      else if n = 181 then 924
      else if n = 255 then 376
      else n)"

definition isWordChar :: "char \<Rightarrow> bool" where
  "isWordChar c =
     (let n = (of_char c :: nat) in
      (48 \<le> n \<and> n \<le> 57) \<or> (65 \<le> n \<and> n \<le> 90) \<or> n = 95 \<or> (97 \<le> n \<and> n \<le> 122))"

definition isWordBoundary :: "string \<Rightarrow> nat \<Rightarrow> bool" where
  "isWordBoundary s e =
     (let a = (0 < e \<and> e \<le> length s \<and> isWordChar (s ! (e - 1)));
          b = (e < length s \<and> isWordChar (s ! e))
      in a \<noteq> b)"

text \<open>\<open>match_terms ts s i\<close> is the end of the match of \<open>ts\<close> that starts at index \<open>i\<close> of \<open>s\<close>.\<close>

fun match_terms :: "re_term list \<Rightarrow> string \<Rightarrow> nat \<Rightarrow> nat option" where
  "match_terms [] s i = Some i"
| "match_terms (WordBoundary # ts) s i =
     (if isWordBoundary s i then match_terms ts s i else None)"
| "match_terms (PatternCharacter c # ts) s i =
     (if i < length s \<and> Canonicalize (s ! i) = Canonicalize c then match_terms ts s (Suc i)
      else None)"

text \<open>
  The first match of a pattern without the flag \<^verbatim>\<open>g\<close>: the start indices are tried from 0
  to the length of the string.
\<close>

definition RegExp_exec :: "re_term list \<Rightarrow> string \<Rightarrow> (nat \<times> nat) option" where
  "RegExp_exec ts s =
     (case find (\<lambda>i. match_terms ts s i \<noteq> None) [0..<Suc (length s)] of
        None \<Rightarrow> None
      | Some i \<Rightarrow> map_option (Pair i) (match_terms ts s i))"

text \<open>\<^verbatim>\<open>s.replace(regex, f)\<close> for a replacer function \<open>f\<close> of the matched text.\<close>

definition String_replace_regex ::
  "string \<Rightarrow> re_term list \<Rightarrow> (string \<Rightarrow> string) \<Rightarrow> string" where
  "String_replace_regex s ts f =
     (case RegExp_exec ts s of
        None \<Rightarrow> s
      | Some (i, e) \<Rightarrow> take i s @ f (take (e - i) (drop i s)) @ drop e s)"

text \<open>
  \<^verbatim>\<open>createSmartLink\<close> (lines 200-204). Its parameters are untyped: \<^verbatim>\<open>term.replace\<close> throws
  unless the term is a string.
\<close>

definition createSmartLink :: "string \<Rightarrow> js_value \<Rightarrow> error + string" where
  "createSmartLink originalText trm =
     (case trm of
        JStr t \<Rightarrow>
          (let escapedTerm = escapeTerm t in
           case RegExp_compile ([CHR 0x5C, CHR ''b''] @ escapedTerm @ [CHR 0x5C, CHR ''b'']) of
             None \<Rightarrow> Inl UnsupportedPattern
           | Some regex \<Rightarrow>
               Inr (String_replace_regex originalText regex
                      (\<lambda>match. ''[['' @ t @ ''|'' @ match @ '']]'')))
      | _ \<Rightarrow> Inl TypeError)"

section \<open>Note creation\<close>

text \<open>\<^verbatim>\<open>createDefinitionNote\<close> (lines 148-170), statement by statement.\<close>

definition noteContent :: "TFile option \<Rightarrow> js_value \<Rightarrow> error + string" where
  "noteContent activeFile d =
     Array_join [CHR 0x0A]
       [d, JStr [],
        JStr (case activeFile of
                Some f \<Rightarrow> ''- Source: [['' @ basename f @ '']]''
              | None \<Rightarrow> [])]"

definition createDefinitionNote ::
  "TermDefinitionPluginSettings \<Rightarrow> TFile option \<Rightarrow> js_value \<Rightarrow> world
     \<Rightarrow> (error + string) \<times> world" where
  "createDefinitionNote settings activeFile definition w =
     (let targetFolder = getTargetFolder settings activeFile in
      case ensureFolderExists targetFolder w of
        (Inl e, w1) \<Rightarrow> (Inl e, w1)
      | (Inr u, w1) \<Rightarrow>
          (case js_get definition ''definition'' of
             Inl e \<Rightarrow> (Inl e, w1)
           | Inr d \<Rightarrow>
               (case noteContent activeFile d of
                  Inl e \<Rightarrow> (Inl e, w1)
                | Inr content \<Rightarrow>
                    (case js_get definition ''term'' of
                       Inl e \<Rightarrow> (Inl e, w1)
                     | Inr t \<Rightarrow>
                         (case ToString t of
                            Inl e \<Rightarrow> (Inl e, w1)
                          | Inr stem \<Rightarrow>
                              (let notePath = targetFolder @ ''/'' @ stem @ ''.md'' in
                               case vault_create notePath content w1 of
                                 (Inl e, w2) \<Rightarrow> (Inl e, w2)
                               | (Inr u', w2) \<Rightarrow>
                                   (Inr (String_replace notePath ''.md'' []), w2)))))))"

section \<open>The pipeline\<close>

text \<open>
  What the external model's reply comes to at line 139: the request or the reading of
  its envelope threw, \<^verbatim>\<open>JSON.parse\<close> threw on the payload, or it returned a value.
\<close>

datatype llm_reply = RequestFailed | MalformedJSON | ParsedJSON js_value

text \<open>\<^verbatim>\<open>getDefinitionFromLLM\<close> (lines 100-146): every exception is caught and gives \<^verbatim>\<open>null\<close>.\<close>

fun getDefinitionFromLLM :: "llm_reply \<Rightarrow> js_value" where
  "getDefinitionFromLLM RequestFailed = JNull"
| "getDefinitionFromLLM MalformedJSON = JNull"
| "getDefinitionFromLLM (ParsedJSON v) = v"

text \<open>The body of the \<^verbatim>\<open>try\<close> block of \<^verbatim>\<open>handleTermDefinition\<close> after line 82.\<close>

definition handleTermDefinition_try ::
  "TermDefinitionPluginSettings \<Rightarrow> TFile option \<Rightarrow> string \<Rightarrow> js_value \<Rightarrow> world
     \<Rightarrow> (error + unit) \<times> world" where
  "handleTermDefinition_try settings activeFile selectedText definition w =
     (case createDefinitionNote settings activeFile definition w of
        (Inl e, w1) \<Rightarrow> (Inl e, w1)
      | (Inr noteId, w1) \<Rightarrow>
          (case js_get definition ''term'' of
             Inl e \<Rightarrow> (Inl e, w1)
           | Inr t \<Rightarrow>
               (case createSmartLink selectedText t of
                  Inl e \<Rightarrow> (Inl e, w1)
                | Inr linkedText \<Rightarrow>
                    (case ToString definition of
                       Inl e \<Rightarrow> (Inl e, w1)
                     | Inr rendered \<Rightarrow>
                         (Inr (),
                          notice ''Term definition created successfully''
                            (replaceSelection
                               (String_replace linkedText rendered ''undefined'') w1))))))"

text \<open>\<^verbatim>\<open>handleTermDefinition\<close> (lines 69-98).\<close>

definition handleTermDefinition ::
  "TermDefinitionPluginSettings \<Rightarrow> TFile option \<Rightarrow> string \<Rightarrow> llm_reply \<Rightarrow> world \<Rightarrow> world" where
  "handleTermDefinition settings activeFile selectedText reply w =
     (if selectedText = [] then notice ''No text selected'' w
      else
        (let definition = getDefinitionFromLLM reply in
         if \<not> truthy definition then notice ''Failed to get definition from API'' w
         else
           (case handleTermDefinition_try settings activeFile selectedText definition w of
              (Inl e, w') \<Rightarrow> notice ''Error creating term definition'' w'
            | (Inr u, w') \<Rightarrow> w')))"

section \<open>Specification-side definitions\<close>

text \<open>
  The words of the specification for folder creation (section 4.4): the path is split
  into segments, and the accumulated prefixes are the joins of the first \<open>k\<close> segments.
  \<open>missing_folders\<close> are the accumulated prefixes that do not exist in a world.
\<close>

fun String_join :: "string \<Rightarrow> string list \<Rightarrow> string" where
  "String_join sep [] = []"
| "String_join sep [x] = x"
| "String_join sep (x # y # ys) = x @ sep @ String_join sep (y # ys)"

definition accumulated_prefixes :: "string \<Rightarrow> string list" where
  "accumulated_prefixes p =
     (let segments = String_split (CHR ''/'') p
      in map (\<lambda>k. String_join ''/'' (take (Suc k) segments)) [0..<length segments])"

definition missing_folders :: "world \<Rightarrow> string \<Rightarrow> string list" where
  "missing_folders w p = filter (\<lambda>q. \<not> adapter_exists w q) (accumulated_prefixes p)"

text \<open>
  The words of the specification for the smart linker (section 4.5). A whole-word match
  of a term at an index is a case-insensitive occurrence of the term with a word boundary
  at each end; \<open>link_at\<close> puts the link construct in the place of the matched text. A
  standalone occurrence is a case-insensitive occurrence that has, on each side, a
  non-word character or an end of the text.
\<close>

definition whole_word_match :: "string \<Rightarrow> string \<Rightarrow> nat \<Rightarrow> bool" where
  "whole_word_match original t i =
     (i + length t \<le> length original \<and>
      map Canonicalize (take (length t) (drop i original)) = map Canonicalize t \<and>
      isWordBoundary original i \<and> isWordBoundary original (i + length t))"

definition link_at :: "string \<Rightarrow> string \<Rightarrow> nat \<Rightarrow> string" where
  "link_at original t i =
     take i original @ ''[['' @ t @ ''|'' @ take (length t) (drop i original) @ '']]'' @
     drop (i + length t) original"


text \<open>
  A parsed value of the shape of \<^verbatim>\<open>TermDefinition\<close>: its \<^verbatim>\<open>term\<close> and \<^verbatim>\<open>definition\<close> are strings,
  and no own property shadows \<^verbatim>\<open>toString\<close>, so that it renders as \<^verbatim>\<open>[object Object]\<close>.
\<close>

definition isTermDefinition :: "js_value \<Rightarrow> string \<Rightarrow> string \<Rightarrow> bool" where
  "isTermDefinition v t d =
     (js_get v ''term'' = Inr (JStr t) \<and> js_get v ''definition'' = Inr (JStr d) \<and>
      ToString v = Inr ''[object Object]'')"

text \<open>\<open>occurs_in search s\<close>: the string \<open>search\<close> occurs in \<open>s\<close> at some index.\<close>

definition occurs_in :: "string \<Rightarrow> string \<Rightarrow> bool" where
  "occurs_in search s = list_ex (\<lambda>i. startsWith (drop i s) search) [0..<Suc (length s)]"

text \<open>
  The note body in the words of the specification (section 4.4): the definition text, a
  blank line, and the back-reference line when a source document is known.
\<close>

definition note_body :: "TFile option \<Rightarrow> string \<Rightarrow> string" where
  "note_body activeFile d =
     d @ [CHR 0x0A] @ [CHR 0x0A] @
     (case activeFile of
        None \<Rightarrow> []
      | Some f \<Rightarrow> ''- Source: [['' @ basename f @ '']]'')"

section \<open>Auxiliary definitions\<close>

text \<open>
  The values that \<open>currentPath\<close> takes at the existence test of the loop of
  \<open>ensureFolderExists\<close>; a world after some folder creations, and after a file creation; the
  empty vault.
\<close>

fun loop_paths :: "string \<Rightarrow> string list \<Rightarrow> string list" where
  "loop_paths cur [] = []"
| "loop_paths cur (s # rest) = (cur @ s) # loop_paths (cur @ s @ ''/'') rest"

definition with_folders :: "world \<Rightarrow> string list \<Rightarrow> world" where
  "with_folders w ps = w\<lparr>folders := folders w @ ps, effects := effects w @ map CreateFolder ps\<rparr>"

definition with_file :: "world \<Rightarrow> string \<Rightarrow> string \<Rightarrow> world" where
  "with_file w p content =
     w\<lparr>files := files w @ [(p, content)], effects := effects w @ [CreateFile p content]\<rparr>"

definition empty_world :: world where
  "empty_world = \<lparr>folders = [], files = [], effects = []\<rparr>"

section \<open>Properties of the folder router\<close>

lemma startsWith_prefix: "startsWith s p = prefix p s"
  by (auto simp: startsWith_def prefix_def) (metis append_eq_conv_conj)

lemma getTargetFolder_loop_find:
  "getTargetFolder_loop src ms dflt =
     (case find (\<lambda>m. prefix (sourcePath m) src) ms of
        None \<Rightarrow> dflt
      | Some m \<Rightarrow> targetPath m)"
  by (induction ms) (simp_all add: startsWith_prefix)

text \<open>
  Claim C5. With no active document the router returns \<open>defaultGlossaryPath\<close>. With an
  active document it returns the \<open>targetPath\<close> of the first mapping, in list order, whose
  \<open>sourcePath\<close> is a prefix of the document's full path, and \<open>defaultGlossaryPath\<close> when
  there is no such mapping. The router is a total function: it always returns.
\<close>

theorem getTargetFolder_first_prefix_match:
  "getTargetFolder settings None = defaultGlossaryPath settings \<and>
   getTargetFolder settings (Some f) =
     (case find (\<lambda>m. prefix (sourcePath m) (path f)) (folderMappings settings) of
        None \<Rightarrow> defaultGlossaryPath settings
      | Some m \<Rightarrow> targetPath m)"
  by (simp add: getTargetFolder_def getTargetFolder_loop_find)

text \<open>The three routing examples of section 8 of the specification.\<close>

theorem getTargetFolder_first_prefix_match_witness:
  "getTargetFolder
     (DEFAULT_SETTINGS\<lparr>folderMappings :=
        [\<lparr>sourcePath = ''Projects'', targetPath = ''Projects/Glossary''\<rparr>]\<rparr>)
     (Some \<lparr>path = ''Projects/Notes/a.md'', basename = ''a''\<rparr>) = ''Projects/Glossary'' \<and>
   getTargetFolder
     (DEFAULT_SETTINGS\<lparr>folderMappings :=
        [\<lparr>sourcePath = ''Projects'', targetPath = ''Projects/Glossary''\<rparr>]\<rparr>)
     (Some \<lparr>path = ''Other/b.md'', basename = ''b''\<rparr>) = ''Glossary'' \<and>
   getTargetFolder
     (DEFAULT_SETTINGS\<lparr>folderMappings :=
        [\<lparr>sourcePath = ''Projects'', targetPath = ''Projects/Glossary''\<rparr>]\<rparr>)
     None = ''Glossary''"
  using getTargetFolder_first_prefix_match
    [of "DEFAULT_SETTINGS\<lparr>folderMappings :=
        [\<lparr>sourcePath = ''Projects'', targetPath = ''Projects/Glossary''\<rparr>]\<rparr>"
        "\<lparr>path = ''Projects/Notes/a.md'', basename = ''a''\<rparr>"]
    getTargetFolder_first_prefix_match
    [of "DEFAULT_SETTINGS\<lparr>folderMappings :=
        [\<lparr>sourcePath = ''Projects'', targetPath = ''Projects/Glossary''\<rparr>]\<rparr>"
        "\<lparr>path = ''Other/b.md'', basename = ''b''\<rparr>"]
  by (simp add: DEFAULT_SETTINGS_def)

text \<open>
  Claim C10. The empty string is a prefix of every path. So when the mapping at some index
  \<open>k\<close> has an empty \<open>sourcePath\<close> and there is an active document, the router returns the
  \<open>targetPath\<close> of the first matching mapping, which stands at an index \<open>i \<le> k\<close>: the fallback
  is never taken, and the result does not depend on \<open>defaultGlossaryPath\<close>.
\<close>

theorem getTargetFolder_empty_sourcePath:
  assumes "k < length (folderMappings settings)"
    and "sourcePath (folderMappings settings ! k) = []"
  shows "(\<exists>i\<le>k. getTargetFolder settings (Some f) = targetPath (folderMappings settings ! i) \<and>
            prefix (sourcePath (folderMappings settings ! i)) (path f) \<and>
            (\<forall>j<i. \<not> prefix (sourcePath (folderMappings settings ! j)) (path f))) \<and>
         getTargetFolder (settings\<lparr>defaultGlossaryPath := d\<rparr>) (Some f) =
           getTargetFolder settings (Some f)"
proof -
  let ?ms = "folderMappings settings"
  let ?P = "\<lambda>m. prefix (sourcePath m) (path f)"
  have Pk: "?P (?ms ! k)" using assms(2) by simp
  have "find ?P ?ms \<noteq> None"
    using Pk nth_mem [OF assms(1)] by (auto simp: find_None_iff)
  then obtain m where m: "find ?P ?ms = Some m" by auto
  then obtain i where i: "i < length ?ms" "?P (?ms ! i)" "m = ?ms ! i" "\<forall>j<i. \<not> ?P (?ms ! j)"
    by (auto simp: find_Some_iff)
  have "i \<le> k" using i(4) Pk by (meson not_le)
  moreover have "getTargetFolder settings (Some f) = targetPath (?ms ! i)"
    using m i(3) by (simp add: getTargetFolder_def getTargetFolder_loop_find)
  moreover have "getTargetFolder (settings\<lparr>defaultGlossaryPath := d\<rparr>) (Some f) =
           getTargetFolder settings (Some f)"
    using m by (simp add: getTargetFolder_def getTargetFolder_loop_find)
  ultimately show ?thesis using i by blast
qed

text \<open>A mapping list as the settings tab's Add button leaves it: the last entry is empty.\<close>

theorem getTargetFolder_empty_sourcePath_witness:
  "getTargetFolder
     (DEFAULT_SETTINGS\<lparr>folderMappings :=
        [\<lparr>sourcePath = ''Projects'', targetPath = ''Projects/Glossary''\<rparr>,
         \<lparr>sourcePath = [], targetPath = []\<rparr>]\<rparr>)
     (Some \<lparr>path = ''Other/b.md'', basename = ''b''\<rparr>) = [] \<and>
   getTargetFolder
     (DEFAULT_SETTINGS\<lparr>folderMappings :=
        [\<lparr>sourcePath = ''Projects'', targetPath = ''Projects/Glossary''\<rparr>,
         \<lparr>sourcePath = [], targetPath = []\<rparr>],
        defaultGlossaryPath := ''Elsewhere''\<rparr>)
     (Some \<lparr>path = ''Other/b.md'', basename = ''b''\<rparr>) = []"
  using getTargetFolder_empty_sourcePath
    [of 1 "DEFAULT_SETTINGS\<lparr>folderMappings :=
        [\<lparr>sourcePath = ''Projects'', targetPath = ''Projects/Glossary''\<rparr>,
         \<lparr>sourcePath = [], targetPath = []\<rparr>]\<rparr>"
        "\<lparr>path = ''Other/b.md'', basename = ''b''\<rparr>" "''Elsewhere''"]
  by (auto simp: DEFAULT_SETTINGS_def less_Suc_eq_le le_Suc_eq)

section \<open>Properties of folder creation\<close>

lemma loop_paths_longer: "q \<in> set (loop_paths cur segs) \<Longrightarrow> length cur \<le> length q"
  by (induction segs arbitrary: cur) fastforce+

lemma loop_paths_fresh: "cur @ s \<notin> set (loop_paths (cur @ s @ ''/'') rest)"
  using loop_paths_longer [of "cur @ s" "cur @ s @ ''/''" rest] by auto

lemma with_folders_Nil: "with_folders w [] = w"
  by (simp add: with_folders_def)

lemma with_folders_Cons:
  "with_folders (with_folders w [p]) ps = with_folders w (p # ps)"
  by (simp add: with_folders_def)

lemma exists_with_folders:
  "adapter_exists (with_folders w ps) q = (adapter_exists w q \<or> q \<in> set ps)"
  by (auto simp: with_folders_def adapter_exists_def)

lemma vault_createFolder_fresh:
  "\<not> adapter_exists w p \<Longrightarrow> vault_createFolder p w = (Inr (), with_folders w [p])"
  by (simp add: vault_createFolder_def with_folders_def)

lemma ensureFolderExists_loop_eq:
  "ensureFolderExists_loop segs cur w =
     (Inr (), with_folders w (filter (\<lambda>q. \<not> adapter_exists w q) (loop_paths cur segs)))"
proof (induction segs arbitrary: cur w)
  case Nil
  show ?case by (simp add: with_folders_Nil)
next
  case (Cons s rest)
  show ?case
  proof (cases "adapter_exists w (cur @ s)")
    case True
    then show ?thesis using Cons.IH [of "cur @ s @ ''/''" w] by simp
  next
    case False
    have same: "filter (\<lambda>q. \<not> adapter_exists (with_folders w [cur @ s]) q)
                  (loop_paths (cur @ s @ ''/'') rest) =
                filter (\<lambda>q. \<not> adapter_exists w q) (loop_paths (cur @ s @ ''/'') rest)"
      using loop_paths_fresh [of cur s rest]
      by (intro filter_cong) (auto simp: exists_with_folders)
    show ?thesis
      using False Cons.IH [of "cur @ s @ ''/''" "with_folders w [cur @ s]"]
      by (simp add: vault_createFolder_fresh same with_folders_Cons)
  qed
qed

lemma String_join_Cons:
  "ys \<noteq> [] \<Longrightarrow> String_join sep (x # ys) = x @ sep @ String_join sep ys"
  by (cases ys) simp_all

lemma loop_paths_join:
  "loop_paths cur segs =
     map (\<lambda>k. cur @ String_join ''/'' (take (Suc k) segs)) [0..<length segs]"
proof (induction segs arbitrary: cur)
  case Nil
  show ?case by simp
next
  case (Cons s rest)
  have "map (\<lambda>k. cur @ String_join ''/'' (take (Suc k) (s # rest))) [0..<length (s # rest)] =
        (cur @ s) # map (\<lambda>k. cur @ String_join ''/'' (take (Suc (Suc k)) (s # rest))) [0..<length rest]"
    by (simp add: map_upt_Suc del: upt_Suc)
  also have "map (\<lambda>k. cur @ String_join ''/'' (take (Suc (Suc k)) (s # rest))) [0..<length rest] =
        map (\<lambda>k. (cur @ s @ ''/'') @ String_join ''/'' (take (Suc k) rest)) [0..<length rest]"
  proof (intro map_cong refl)
    fix k assume "k \<in> set [0..<length rest]"
    then have "take (Suc k) rest \<noteq> []" by (cases rest) auto
    then show "cur @ String_join ''/'' (take (Suc (Suc k)) (s # rest)) =
               (cur @ s @ ''/'') @ String_join ''/'' (take (Suc k) rest)"
      by (simp add: String_join_Cons)
  qed
  finally show ?case using Cons.IH [of "cur @ s @ ''/''"] by simp
qed

lemma ensureFolderExists_eq:
  "ensureFolderExists p w = (Inr (), with_folders w (missing_folders w p))"
  by (simp add: ensureFolderExists_def ensureFolderExists_loop_eq loop_paths_join
      missing_folders_def accumulated_prefixes_def Let_def)


lemma createDefinitionNote_success:
  assumes "createDefinitionNote settings af d w = (Inr r, w')"
  shows "\<exists>dv content t stem.
           js_get d ''definition'' = Inr dv \<and> noteContent af dv = Inr content \<and>
           js_get d ''term'' = Inr t \<and> ToString t = Inr stem \<and>
           \<not> adapter_exists (with_folders w (missing_folders w (getTargetFolder settings af)))
               (getTargetFolder settings af @ ''/'' @ stem @ ''.md'') \<and>
           w' = with_file (with_folders w (missing_folders w (getTargetFolder settings af)))
                  (getTargetFolder settings af @ ''/'' @ stem @ ''.md'') content \<and>
           r = String_replace (getTargetFolder settings af @ ''/'' @ stem @ ''.md'') ''.md'' []"
  using assms
  by (auto simp: createDefinitionNote_def ensureFolderExists_eq vault_create_def with_file_def
      Let_def split: sum.splits if_splits)

lemma accumulated_prefixes_ABC: "accumulated_prefixes ''A/B/C'' = [''A'', ''A/B'', ''A/B/C'']"
  by code_simp

text \<open>
  Claim C6. \<open>ensureFolderExists\<close> never fails: it creates exactly the accumulated prefixes of
  the slash-delimited path that do not exist yet, in left-to-right order, and leaves the
  existing ones alone. When \<open>createDefinitionNote\<close> succeeds, these folder creations come
  before the one file write. For \<^verbatim>\<open>A/B/C\<close> with none of \<^verbatim>\<open>A\<close>, \<^verbatim>\<open>A/B\<close>, \<^verbatim>\<open>A/B/C\<close> existing, the
  three are created in that order.
\<close>

theorem ensureFolderExists_creates_missing_prefixes:
  "ensureFolderExists p w =
     (Inr (), w\<lparr>folders := folders w @ missing_folders w p,
               effects := effects w @ map CreateFolder (missing_folders w p)\<rparr>) \<and>
   (createDefinitionNote settings af d w = (Inr r, w') \<longrightarrow>
      (\<exists>notePath content.
         effects w' =
           effects w @ map CreateFolder (missing_folders w (getTargetFolder settings af)) @
           [CreateFile notePath content])) \<and>
   (\<not> adapter_exists w ''A'' \<and> \<not> adapter_exists w ''A/B'' \<and> \<not> adapter_exists w ''A/B/C'' \<longrightarrow>
      missing_folders w ''A/B/C'' = [''A'', ''A/B'', ''A/B/C''])"
proof (intro conjI impI)
  show "ensureFolderExists p w =
     (Inr (), w\<lparr>folders := folders w @ missing_folders w p,
               effects := effects w @ map CreateFolder (missing_folders w p)\<rparr>)"
    by (simp add: ensureFolderExists_eq with_folders_def)
next
  assume "createDefinitionNote settings af d w = (Inr r, w')"
  from createDefinitionNote_success [OF this]
  show "\<exists>notePath content.
         effects w' =
           effects w @ map CreateFolder (missing_folders w (getTargetFolder settings af)) @
           [CreateFile notePath content]"
    by (auto simp: with_file_def with_folders_def)
next
  assume "\<not> adapter_exists w ''A'' \<and> \<not> adapter_exists w ''A/B'' \<and> \<not> adapter_exists w ''A/B/C''"
  then show "missing_folders w ''A/B/C'' = [''A'', ''A/B'', ''A/B/C'']"
    by (simp add: missing_folders_def accumulated_prefixes_ABC)
qed

text \<open>
  In an empty vault all three folders are created; with \<^verbatim>\<open>A/B\<close> present only the other two
  are, and the note is written after them.
\<close>

theorem ensureFolderExists_creates_missing_prefixes_witness:
  "ensureFolderExists ''A/B/C'' empty_world =
     (Inr (), \<lparr>folders = [''A'', ''A/B'', ''A/B/C''], files = [],
               effects = [CreateFolder ''A'', CreateFolder ''A/B'', CreateFolder ''A/B/C'']\<rparr>) \<and>
   effects (snd (createDefinitionNote (DEFAULT_SETTINGS\<lparr>defaultGlossaryPath := ''A/B/C''\<rparr>) None
      (JObj [(''term'', JStr ''gpu''), (''definition'', JStr ''a graphics processor'')])
      (empty_world\<lparr>folders := [''A/B'']\<rparr>))) =
     [CreateFolder ''A'', CreateFolder ''A/B/C'',
      CreateFile ''A/B/C/gpu.md'' (''a graphics processor'' @ [CHR 0x0A, CHR 0x0A])]"
proof -
  have none: "\<not> adapter_exists empty_world ''A'' \<and> \<not> adapter_exists empty_world ''A/B'' \<and>
              \<not> adapter_exists empty_world ''A/B/C''"
    by (simp add: adapter_exists_def empty_world_def)
  have run: "createDefinitionNote (DEFAULT_SETTINGS\<lparr>defaultGlossaryPath := ''A/B/C''\<rparr>) None
      (JObj [(''term'', JStr ''gpu''), (''definition'', JStr ''a graphics processor'')])
      (empty_world\<lparr>folders := [''A/B'']\<rparr>) =
     (Inr ''A/B/C/gpu'',
      \<lparr>folders = [''A/B'', ''A'', ''A/B/C''],
       files = [(''A/B/C/gpu.md'', ''a graphics processor'' @ [CHR 0x0A, CHR 0x0A])],
       effects = [CreateFolder ''A'', CreateFolder ''A/B/C'',
         CreateFile ''A/B/C/gpu.md'' (''a graphics processor'' @ [CHR 0x0A, CHR 0x0A])]\<rparr>)"
    by code_simp
  show ?thesis
    using none run
      ensureFolderExists_creates_missing_prefixes
        [where p = "''A/B/C''" and w = empty_world]
      ensureFolderExists_creates_missing_prefixes
        [where w = "empty_world\<lparr>folders := [''A/B'']\<rparr>"
           and settings = "DEFAULT_SETTINGS\<lparr>defaultGlossaryPath := ''A/B/C''\<rparr>"
           and af = None
           and d = "JObj [(''term'', JStr ''gpu''), (''definition'', JStr ''a graphics processor'')]"]
    by (simp add: empty_world_def)
qed

section \<open>Properties of the smart linker\<close>

lemma escape_class_SyntaxCharacter: "escape_class c = SyntaxCharacter c"
  by (auto simp: escape_class_def SyntaxCharacter_def)

lemma RegExp_compile_PatternCharacter:
  "\<not> SyntaxCharacter c \<Longrightarrow>
     RegExp_compile (c # xs) = map_option (Cons (PatternCharacter c)) (RegExp_compile xs)"
  by (cases xs) (auto simp: SyntaxCharacter_def)

lemma RegExp_compile_escaped:
  "SyntaxCharacter c \<Longrightarrow>
     RegExp_compile (CHR 0x5C # c # xs) = map_option (Cons (PatternCharacter c)) (RegExp_compile xs)"
  by (auto simp: SyntaxCharacter_def)

lemma RegExp_compile_escapeTerm:
  "RegExp_compile (escapeTerm t @ xs) =
     map_option ((@) (map PatternCharacter t)) (RegExp_compile xs)"
proof (induction t)
  case Nil
  show ?case by (simp add: escapeTerm_def option.map_ident)
next
  case (Cons c t)
  have step: "escapeTerm (c # t) @ xs =
     (if SyntaxCharacter c then CHR 0x5C # c # (escapeTerm t @ xs) else c # (escapeTerm t @ xs))"
    by (simp add: escapeTerm_def escape_class_SyntaxCharacter)
  show ?case
    unfolding step using Cons.IH
    by (simp add: RegExp_compile_PatternCharacter RegExp_compile_escaped option.map_comp comp_def
        del: RegExp_compile.simps)
qed

lemma RegExp_compile_pattern:
  "RegExp_compile (CHR 0x5C # CHR ''b'' # escapeTerm t @ [CHR 0x5C, CHR ''b'']) =
     Some (WordBoundary # map PatternCharacter t @ [WordBoundary])"
proof -
  have "RegExp_compile (CHR 0x5C # CHR ''b'' # escapeTerm t @ [CHR 0x5C, CHR ''b'']) =
        map_option (Cons WordBoundary) (RegExp_compile (escapeTerm t @ [CHR 0x5C, CHR ''b'']))"
    by simp
  also have "\<dots> = Some (WordBoundary # map PatternCharacter t @ [WordBoundary])"
    by (simp add: RegExp_compile_escapeTerm del: RegExp_compile.simps) simp
  finally show ?thesis .
qed

lemma match_terms_literal:
  "i \<le> length s \<Longrightarrow>
   match_terms (map PatternCharacter t @ ts) s i =
     (if i + length t \<le> length s \<and>
         map Canonicalize (take (length t) (drop i s)) = map Canonicalize t
      then match_terms ts s (i + length t) else None)"
proof (induction t arbitrary: i)
  case Nil
  then show ?case by simp
next
  case (Cons c t)
  show ?case
  proof (cases "i < length s")
    case True
    then have d: "drop i s = s ! i # drop (Suc i) s"
      by (simp add: Cons_nth_drop_Suc)
    show ?thesis using True Cons.IH [of "Suc i"] by (auto simp: d)
  next
    case False
    then show ?thesis by auto
  qed
qed

lemma isWordBoundary_outside: "length s < i \<Longrightarrow> \<not> isWordBoundary s i"
  by (simp add: isWordBoundary_def)

lemma match_terms_pattern:
  "match_terms (WordBoundary # map PatternCharacter t @ [WordBoundary]) s i =
     (if whole_word_match s t i then Some (i + length t) else None)"
proof (cases "i \<le> length s")
  case True
  then show ?thesis by (auto simp: match_terms_literal whole_word_match_def)
next
  case False
  then show ?thesis by (simp add: isWordBoundary_outside whole_word_match_def)
qed


lemma matches_pattern:
  "(\<lambda>i. match_terms (WordBoundary # map PatternCharacter t @ [WordBoundary]) original i \<noteq> None) =
     whole_word_match original t"
  by (simp add: fun_eq_iff match_terms_pattern del: match_terms.simps)

lemma RegExp_exec_pattern:
  "RegExp_exec (WordBoundary # map PatternCharacter t @ [WordBoundary]) original =
     (case find (whole_word_match original t) [0..<Suc (length original)] of
        None \<Rightarrow> None
      | Some i \<Rightarrow> Some (i, i + length t))"
proof (cases "find (whole_word_match original t) [0..<Suc (length original)]")
  case None
  then show ?thesis unfolding RegExp_exec_def matches_pattern by simp
next
  case (Some i)
  then have "whole_word_match original t i" by (auto simp: find_Some_iff simp del: upt_Suc)
  with Some show ?thesis
    unfolding RegExp_exec_def matches_pattern match_terms_pattern by simp
qed

lemma createSmartLink_find:
  "createSmartLink original (JStr t) =
     Inr (case find (whole_word_match original t) [0..<Suc (length original)] of
            None \<Rightarrow> original
          | Some i \<Rightarrow> link_at original t i)"
  by (simp add: createSmartLink_def RegExp_compile_pattern String_replace_regex_def
      RegExp_exec_pattern link_at_def
      del: upt_Suc RegExp_compile.simps match_terms.simps split: option.splits)













section \<open>Properties of note creation\<close>

lemma noteContent_JStr: "noteContent af (JStr d) = Inr (note_body af d)"
  by (simp add: noteContent_def note_body_def split: option.splits)

lemma isTermDefinition_truthy: "isTermDefinition v t d \<Longrightarrow> truthy v"
  by (cases v) (simp_all add: isTermDefinition_def)

lemma createDefinitionNote_typed:
  assumes "js_get d ''term'' = Inr (JStr t)" "js_get d ''definition'' = Inr (JStr dd)"
  shows "createDefinitionNote settings af d w =
     (if adapter_exists (with_folders w (missing_folders w (getTargetFolder settings af)))
           (getTargetFolder settings af @ ''/'' @ t @ ''.md'')
      then (Inl NoteAlreadyExists, with_folders w (missing_folders w (getTargetFolder settings af)))
      else (Inr (String_replace (getTargetFolder settings af @ ''/'' @ t @ ''.md'') ''.md'' []),
            with_file (with_folders w (missing_folders w (getTargetFolder settings af)))
              (getTargetFolder settings af @ ''/'' @ t @ ''.md'') (note_body af dd)))"
  using assms
  by (simp add: createDefinitionNote_def ensureFolderExists_eq noteContent_JStr vault_create_def
      with_file_def Let_def)

lemma files_with_folders: "files (with_folders w ps) = files w"
  by (simp add: with_folders_def)

lemma folders_with_folders: "folders (with_folders w ps) = folders w @ ps"
  by (simp add: with_folders_def)

lemma effects_with_folders: "effects (with_folders w ps) = effects w @ map CreateFolder ps"
  by (simp add: with_folders_def)

lemma notice_fields:
  "files (notice s w) = files w" "folders (notice s w) = folders w"
  "effects (notice s w) = effects w @ [Notice s]"
  by (simp_all add: notice_def)

text \<open>
  Claim C7. When a file already occupies the computed note path \<^verbatim>\<open><folder>/<term>.md\<close>, note
  creation fails with \<open>NoteAlreadyExists\<close>; the files of the vault, and so the content of
  the existing file, are unchanged (no overwrite, no renaming); and the run ends with the
  failure notice, after at most the folder creations, without replacing the selection.
\<close>

theorem createDefinitionNote_existing_note:
  assumes "isTermDefinition d t dd"
    and "selectedText \<noteq> []"
    and "getTargetFolder settings af @ ''/'' @ t @ ''.md'' \<in> set (map fst (files w))"
  shows "fst (createDefinitionNote settings af d w) = Inl NoteAlreadyExists \<and>
         files (snd (createDefinitionNote settings af d w)) = files w \<and>
         files (handleTermDefinition settings af selectedText (ParsedJSON d) w) = files w \<and>
         effects (handleTermDefinition settings af selectedText (ParsedJSON d) w) =
           effects w @ map CreateFolder (missing_folders w (getTargetFolder settings af)) @
           [Notice ''Error creating term definition'']"
proof -
  let ?w1 = "with_folders w (missing_folders w (getTargetFolder settings af))"
  have occupied: "adapter_exists ?w1 (getTargetFolder settings af @ ''/'' @ t @ ''.md'')"
    using assms(3) by (simp add: adapter_exists_def files_with_folders)
  have typed: "js_get d ''term'' = Inr (JStr t)" "js_get d ''definition'' = Inr (JStr dd)"
    using assms(1) by (simp_all add: isTermDefinition_def)
  have created: "createDefinitionNote settings af d w = (Inl NoteAlreadyExists, ?w1)"
    using occupied by (simp add: createDefinitionNote_typed [OF typed])
  have run: "handleTermDefinition settings af selectedText (ParsedJSON d) w =
      notice ''Error creating term definition'' ?w1"
    using assms(2) isTermDefinition_truthy [OF assms(1)]
    by (simp add: handleTermDefinition_def handleTermDefinition_try_def created)
  show ?thesis
    by (simp add: created run notice_fields files_with_folders effects_with_folders)
qed


text \<open>A second run for the term \<^verbatim>\<open>gpu\<close>: the old note keeps its text.\<close>

theorem createDefinitionNote_existing_note_witness:
  "isTermDefinition (JObj [(''term'', JStr ''gpu''), (''definition'', JStr ''new text'')])
     ''gpu'' ''new text'' \<and>
   fst (createDefinitionNote DEFAULT_SETTINGS None
          (JObj [(''term'', JStr ''gpu''), (''definition'', JStr ''new text'')])
          \<lparr>folders = [], files = [(''Glossary/gpu.md'', ''old text'')], effects = []\<rparr>) =
     Inl NoteAlreadyExists \<and>
   files (handleTermDefinition DEFAULT_SETTINGS None ''A GPU is fast''
            (ParsedJSON (JObj [(''term'', JStr ''gpu''), (''definition'', JStr ''new text'')]))
            \<lparr>folders = [], files = [(''Glossary/gpu.md'', ''old text'')], effects = []\<rparr>) =
     [(''Glossary/gpu.md'', ''old text'')] \<and>
   effects (handleTermDefinition DEFAULT_SETTINGS None ''A GPU is fast''
            (ParsedJSON (JObj [(''term'', JStr ''gpu''), (''definition'', JStr ''new text'')]))
            \<lparr>folders = [], files = [(''Glossary/gpu.md'', ''old text'')], effects = []\<rparr>) =
     [CreateFolder ''Glossary'', Notice ''Error creating term definition'']"
proof -
  let ?d = "JObj [(''term'', JStr ''gpu''), (''definition'', JStr ''new text'')]"
  let ?w = "\<lparr>folders = [], files = [(''Glossary/gpu.md'', ''old text'')], effects = []\<rparr>"
  have typed: "isTermDefinition ?d ''gpu'' ''new text''"
    by (simp add: isTermDefinition_def)
  have sel: "''A GPU is fast'' \<noteq> []"
    by simp
  have occupied: "getTargetFolder DEFAULT_SETTINGS None @ ''/'' @ ''gpu'' @ ''.md''
      \<in> set (map fst (files ?w))"
    by (simp add: getTargetFolder_def DEFAULT_SETTINGS_def)
  have missing: "missing_folders ?w (getTargetFolder DEFAULT_SETTINGS None) = [''Glossary'']"
    by code_simp
  show ?thesis
    using typed createDefinitionNote_existing_note [OF typed sel occupied] missing
    by simp
qed


text \<open>
  Claim C8. The body of the note is the definition text, a line break, a blank line, and
  then the line \<^verbatim>\<open>- Source: [[<basename>]]\<close> exactly when there is an active document; with
  no active document nothing follows the blank line. This is the content of the file
  that a successful \<open>createDefinitionNote\<close> adds to the vault.
\<close>

theorem createDefinitionNote_body:
  "noteContent None (JStr dd) = Inr (dd @ [CHR 0x0A] @ [CHR 0x0A]) \<and>
   noteContent (Some f) (JStr dd) =
     Inr (dd @ [CHR 0x0A] @ [CHR 0x0A] @ ''- Source: [['' @ basename f @ '']]'') \<and>
   (js_get d ''definition'' = Inr (JStr dd) \<and>
    createDefinitionNote settings af d w = (Inr noteId, w') \<longrightarrow>
      (\<exists>p. files w' =
         files w @
         [(p, dd @ [CHR 0x0A] @ [CHR 0x0A] @
              (case af of
                 None \<Rightarrow> []
               | Some f \<Rightarrow> ''- Source: [['' @ basename f @ '']]''))]))"
proof (intro conjI impI)
  show "noteContent None (JStr dd) = Inr (dd @ [CHR 0x0A] @ [CHR 0x0A])"
    by (simp add: noteContent_def)
next
  show "noteContent (Some f) (JStr dd) =
     Inr (dd @ [CHR 0x0A] @ [CHR 0x0A] @ ''- Source: [['' @ basename f @ '']]'')"
    by (simp add: noteContent_def)
next
  assume a: "js_get d ''definition'' = Inr (JStr dd) \<and>
    createDefinitionNote settings af d w = (Inr noteId, w')"
  from createDefinitionNote_success [of settings af d w noteId w'] a
  obtain dv content p where
    dv: "js_get d ''definition'' = Inr dv" and
    content: "noteContent af dv = Inr content" and
    w': "w' = with_file (with_folders w (missing_folders w (getTargetFolder settings af))) p content"
    by blast
  have "dv = JStr dd" using a dv by simp
  then have "content = note_body af dd" using content by (simp add: noteContent_JStr)
  then have "files w' = files w @ [(p, note_body af dd)]"
    using w' by (simp add: with_file_def files_with_folders)
  then show "\<exists>p. files w' =
         files w @
         [(p, dd @ [CHR 0x0A] @ [CHR 0x0A] @
              (case af of
                 None \<Rightarrow> []
               | Some f \<Rightarrow> ''- Source: [['' @ basename f @ '']]''))]"
    by (auto simp: note_body_def)
qed

text \<open>The same definition, written with and without an active document.\<close>

theorem createDefinitionNote_body_witness:
  "files (snd (createDefinitionNote DEFAULT_SETTINGS
       (Some \<lparr>path = ''Notes/hardware.md'', basename = ''hardware''\<rparr>)
       (JObj [(''term'', JStr ''gpu''), (''definition'', JStr ''a graphics processor'')])
       empty_world)) =
     [(''Glossary/gpu.md'',
       ''a graphics processor'' @ [CHR 0x0A] @ [CHR 0x0A] @ ''- Source: [[hardware]]'')] \<and>
   files (snd (createDefinitionNote DEFAULT_SETTINGS None
       (JObj [(''term'', JStr ''gpu''), (''definition'', JStr ''a graphics processor'')])
       empty_world)) =
     [(''Glossary/gpu.md'', ''a graphics processor'' @ [CHR 0x0A] @ [CHR 0x0A])]"
proof -
  let ?d = "JObj [(''term'', JStr ''gpu''), (''definition'', JStr ''a graphics processor'')]"
  let ?f = "\<lparr>path = ''Notes/hardware.md'', basename = ''hardware''\<rparr>"
  let ?w1 = "snd (createDefinitionNote DEFAULT_SETTINGS (Some ?f) ?d empty_world)"
  let ?w2 = "snd (createDefinitionNote DEFAULT_SETTINGS None ?d empty_world)"
  have d: "js_get ?d ''definition'' = Inr (JStr ''a graphics processor'')"
    by simp
  have run1: "createDefinitionNote DEFAULT_SETTINGS (Some ?f) ?d empty_world =
      (Inr ''Glossary/gpu'', ?w1)"
    by code_simp
  have run2: "createDefinitionNote DEFAULT_SETTINGS None ?d empty_world =
      (Inr ''Glossary/gpu'', ?w2)"
    by code_simp
  have p1: "fst (hd (files ?w1)) = ''Glossary/gpu.md''"
    by code_simp
  have p2: "fst (hd (files ?w2)) = ''Glossary/gpu.md''"
    by code_simp
  have e: "files empty_world = []"
    by (simp add: empty_world_def)
  from createDefinitionNote_body
    [where dd = "''a graphics processor''" and d = ?d and settings = DEFAULT_SETTINGS
       and af = "Some ?f" and w = empty_world and noteId = "''Glossary/gpu''" and w' = ?w1]
    d run1
  obtain q1 where q1: "files ?w1 =
      [(q1, ''a graphics processor'' @ [CHR 0x0A] @ [CHR 0x0A] @ ''- Source: [[hardware]]'')]"
    unfolding e by auto
  from createDefinitionNote_body
    [where dd = "''a graphics processor''" and d = ?d and settings = DEFAULT_SETTINGS
       and af = None and w = empty_world and noteId = "''Glossary/gpu''" and w' = ?w2]
    d run2
  obtain q2 where q2: "files ?w2 = [(q2, ''a graphics processor'' @ [CHR 0x0A] @ [CHR 0x0A])]"
    unfolding e by auto
  have "q1 = ''Glossary/gpu.md''" using p1 unfolding q1 by simp
  moreover have "q2 = ''Glossary/gpu.md''" using p2 unfolding q2 by simp
  ultimately show ?thesis using q1 q2 by simp
qed

section \<open>Properties of the pipeline\<close>

lemma occurs_in_Nil: "occurs_in search [] = (search = [])"
  by (auto simp: occurs_in_def startsWith_def)

lemma occurs_in_Cons:
  "occurs_in search (c # cs) = (startsWith (c # cs) search \<or> occurs_in search cs)"
proof -
  have "(\<exists>i<Suc (Suc (length cs)). startsWith (drop i (c # cs)) search) =
        (startsWith (c # cs) search \<or> (\<exists>i<Suc (length cs). startsWith (drop i cs) search))"
  proof
    assume "\<exists>i<Suc (Suc (length cs)). startsWith (drop i (c # cs)) search"
    then obtain i where i: "i < Suc (Suc (length cs))" "startsWith (drop i (c # cs)) search"
      by blast
    show "startsWith (c # cs) search \<or> (\<exists>i<Suc (length cs). startsWith (drop i cs) search)"
    proof (cases i)
      case 0
      with i show ?thesis by simp
    next
      case (Suc j)
      with i have "j < Suc (length cs)" "startsWith (drop j cs) search" by simp_all
      then show ?thesis by blast
    qed
  next
    assume "startsWith (c # cs) search \<or> (\<exists>i<Suc (length cs). startsWith (drop i cs) search)"
    then show "\<exists>i<Suc (Suc (length cs)). startsWith (drop i (c # cs)) search"
    proof
      assume "startsWith (c # cs) search"
      then have "startsWith (drop 0 (c # cs)) search" by simp
      then show ?thesis by blast
    next
      assume "\<exists>i<Suc (length cs). startsWith (drop i cs) search"
      then obtain j where "j < Suc (length cs)" "startsWith (drop j cs) search" by blast
      then have "Suc j < Suc (Suc (length cs))" "startsWith (drop (Suc j) (c # cs)) search"
        by simp_all
      then show ?thesis by blast
    qed
  qed
  then show ?thesis
    by (simp add: occurs_in_def list_ex_iff Bex_def del: upt_Suc)
qed

lemma String_replace_absent:
  "\<not> occurs_in search s \<Longrightarrow> String_replace s search repl = s"
  by (induction s) (simp_all add: occurs_in_Nil occurs_in_Cons)

lemma startsWith_md_append:
  assumes "\<not> startsWith (c # cs) ''.md''"
  shows "\<not> startsWith (c # cs @ ''.md'') ''.md''"
proof (cases cs)
  case Nil
  then show ?thesis by (simp add: startsWith_def)
next
  case (Cons x xs)
  then show ?thesis using assms by (cases xs) (auto simp: startsWith_def)
qed

lemma String_replace_md:
  "\<not> occurs_in ''.md'' stem \<Longrightarrow> String_replace (stem @ ''.md'') ''.md'' [] = stem"
proof (induction stem)
  case Nil
  show ?case by (simp add: startsWith_def)
next
  case (Cons c cs)
  then have "\<not> startsWith (c # cs) ''.md''" "\<not> occurs_in ''.md'' cs"
    by (simp_all add: occurs_in_Cons)
  then show ?case
    using Cons.IH startsWith_md_append [of c cs] by simp
qed

lemma handleTermDefinition_success:
  assumes "isTermDefinition d t dd"
    and "selectedText \<noteq> []"
    and "createDefinitionNote settings af d w = (Inr noteId, w')"
    and "createSmartLink selectedText (JStr t) = Inr linkedText"
  shows "handleTermDefinition settings af selectedText (ParsedJSON d) w =
     notice ''Term definition created successfully''
       (replaceSelection (String_replace linkedText ''[object Object]'' ''undefined'') w')"
  using assms isTermDefinition_truthy [OF assms(1)]
  by (simp add: handleTermDefinition_def handleTermDefinition_try_def isTermDefinition_def)

lemma createSmartLink_total: "\<exists>linked. createSmartLink original (JStr t) = Inr linked"
  by (simp add: createSmartLink_find)

text \<open>
  Claim C9, amended. When the note of a \<^verbatim>\<open>TermDefinition\<close> is created, the file is written at
  \<^verbatim>\<open><folder>/<term>.md\<close>, and when \<^verbatim>\<open>.md\<close> does not occur in \<^verbatim>\<open><folder>/<term>\<close> the identifier that
  \<open>createDefinitionNote\<close> returns is that path without its extension, \<^verbatim>\<open><folder>/<term>\<close>. The
  link does not take this identifier as its target: the smart link is computed from the
  selection and the parsed term alone, with the term as its target; and for a non-empty
  selection, when \<^verbatim>\<open>[object Object]\<close> does not occur in the linked text, the linked text is
  exactly what replaces the selection.
\<close>

theorem createDefinitionNote_identifier:
  assumes "isTermDefinition d t dd"
    and "createDefinitionNote settings af d w = (Inr noteId, w')"
  shows "files w' =
           files w @ [(getTargetFolder settings af @ ''/'' @ t @ ''.md'', note_body af dd)] \<and>
         (\<not> occurs_in ''.md'' (getTargetFolder settings af @ ''/'' @ t) \<longrightarrow>
            noteId = getTargetFolder settings af @ ''/'' @ t) \<and>
         createSmartLink selectedText (JStr t) =
           Inr (case find (whole_word_match selectedText t) [0..<Suc (length selectedText)] of
                  None \<Rightarrow> selectedText
                | Some i \<Rightarrow>
                    take i selectedText @ ''[['' @ t @ ''|'' @
                    take (length t) (drop i selectedText) @ '']]'' @
                    drop (i + length t) selectedText) \<and>
         (selectedText \<noteq> [] \<and> createSmartLink selectedText (JStr t) = Inr linkedText \<and>
          \<not> occurs_in ''[object Object]'' linkedText \<longrightarrow>
            handleTermDefinition settings af selectedText (ParsedJSON d) w =
              notice ''Term definition created successfully'' (replaceSelection linkedText w'))"
proof (intro conjI impI)
  let ?folder = "getTargetFolder settings af"
  let ?w1 = "with_folders w (missing_folders w ?folder)"
  have typed: "js_get d ''term'' = Inr (JStr t)" "js_get d ''definition'' = Inr (JStr dd)"
    using assms(1) by (simp_all add: isTermDefinition_def)
  have free: "\<not> adapter_exists ?w1 (?folder @ ''/'' @ t @ ''.md'')"
    using assms(2) by (auto simp: createDefinitionNote_typed [OF typed] split: if_splits)
  then have id: "noteId = String_replace (?folder @ ''/'' @ t @ ''.md'') ''.md'' []"
    and w': "w' = with_file ?w1 (?folder @ ''/'' @ t @ ''.md'') (note_body af dd)"
    using assms(2) by (simp_all add: createDefinitionNote_typed [OF typed])
  show "files w' = files w @ [(?folder @ ''/'' @ t @ ''.md'', note_body af dd)]"
    using w' by (simp add: with_file_def files_with_folders)
  show "noteId = ?folder @ ''/'' @ t" if "\<not> occurs_in ''.md'' (?folder @ ''/'' @ t)"
    using String_replace_md [OF that] id by simp
next
  show "createSmartLink selectedText (JStr t) =
           Inr (case find (whole_word_match selectedText t) [0..<Suc (length selectedText)] of
                  None \<Rightarrow> selectedText
                | Some i \<Rightarrow>
                    take i selectedText @ ''[['' @ t @ ''|'' @
                    take (length t) (drop i selectedText) @ '']]'' @
                    drop (i + length t) selectedText)"
    by (simp add: createSmartLink_find link_at_def del: upt_Suc split: option.splits)
next
  assume a: "selectedText \<noteq> [] \<and> createSmartLink selectedText (JStr t) = Inr linkedText \<and>
          \<not> occurs_in ''[object Object]'' linkedText"
  then have "String_replace linkedText ''[object Object]'' ''undefined'' = linkedText"
    by (simp add: String_replace_absent)
  then show "handleTermDefinition settings af selectedText (ParsedJSON d) w =
              notice ''Term definition created successfully'' (replaceSelection linkedText w')"
    using a handleTermDefinition_success [OF assms(1) _ assms(2), of selectedText linkedText]
    by simp
qed

text \<open>
  Claim C9 fails as stated. The note of the term \<^verbatim>\<open>gpu\<close> has the identifier \<^verbatim>\<open>Glossary/gpu\<close>,
  but the link inserted into the document is \<^verbatim>\<open>[[gpu|GPU]]\<close>: its target is the term, not
  the identifier. And for the term \<^verbatim>\<open>x.mdx\<close> the returned identifier \<^verbatim>\<open>Glossary/xx.md\<close> is not
  the path \<^verbatim>\<open>Glossary/x.mdx.md\<close> without its extension: the first \<^verbatim>\<open>.md\<close> is removed, not the
  trailing one.
\<close>

theorem createDefinitionNote_identifier_counterexample:
  "fst (createDefinitionNote DEFAULT_SETTINGS None
          (JObj [(''term'', JStr ''gpu''), (''definition'', JStr ''a graphics processor'')])
          empty_world) = Inr ''Glossary/gpu'' \<and>
   effects (handleTermDefinition DEFAULT_SETTINGS None ''A GPU is fast''
          (ParsedJSON (JObj [(''term'', JStr ''gpu''), (''definition'', JStr ''a graphics processor'')]))
          empty_world) =
     [CreateFolder ''Glossary'',
      CreateFile ''Glossary/gpu.md'' (''a graphics processor'' @ [CHR 0x0A, CHR 0x0A]),
      ReplaceSelection ''A [[gpu|GPU]] is fast'',
      Notice ''Term definition created successfully''] \<and>
   createDefinitionNote DEFAULT_SETTINGS None
          (JObj [(''term'', JStr ''x.mdx''), (''definition'', JStr ''a format'')])
          empty_world =
     (Inr ''Glossary/xx.md'',
      \<lparr>folders = [''Glossary''],
       files = [(''Glossary/x.mdx.md'', ''a format'' @ [CHR 0x0A, CHR 0x0A])],
       effects = [CreateFolder ''Glossary'',
                  CreateFile ''Glossary/x.mdx.md'' (''a format'' @ [CHR 0x0A, CHR 0x0A])]\<rparr>)"
  by code_simp

text \<open>The run for the term \<^verbatim>\<open>gpu\<close> in an empty vault.\<close>

theorem createDefinitionNote_identifier_witness:
  "createDefinitionNote DEFAULT_SETTINGS None
      (JObj [(''term'', JStr ''gpu''), (''definition'', JStr ''a graphics processor'')])
      empty_world =
     (Inr ''Glossary/gpu'',
      \<lparr>folders = [''Glossary''],
       files = [(''Glossary/gpu.md'', ''a graphics processor'' @ [CHR 0x0A, CHR 0x0A])],
       effects = [CreateFolder ''Glossary'',
                  CreateFile ''Glossary/gpu.md'' (''a graphics processor'' @ [CHR 0x0A, CHR 0x0A])]\<rparr>) \<and>
   handleTermDefinition DEFAULT_SETTINGS None ''A GPU is fast''
      (ParsedJSON (JObj [(''term'', JStr ''gpu''), (''definition'', JStr ''a graphics processor'')]))
      empty_world =
     notice ''Term definition created successfully''
       (replaceSelection ''A [[gpu|GPU]] is fast''
          \<lparr>folders = [''Glossary''],
           files = [(''Glossary/gpu.md'', ''a graphics processor'' @ [CHR 0x0A, CHR 0x0A])],
           effects = [CreateFolder ''Glossary'',
                      CreateFile ''Glossary/gpu.md''
                        (''a graphics processor'' @ [CHR 0x0A, CHR 0x0A])]\<rparr>)"
proof -
  let ?d = "JObj [(''term'', JStr ''gpu''), (''definition'', JStr ''a graphics processor'')]"
  let ?w' = "\<lparr>folders = [''Glossary''],
       files = [(''Glossary/gpu.md'', ''a graphics processor'' @ [CHR 0x0A, CHR 0x0A])],
       effects = [CreateFolder ''Glossary'',
                  CreateFile ''Glossary/gpu.md'' (''a graphics processor'' @ [CHR 0x0A, CHR 0x0A])]\<rparr>"
  have typed: "isTermDefinition ?d ''gpu'' ''a graphics processor''"
    by (simp add: isTermDefinition_def)
  have created: "createDefinitionNote DEFAULT_SETTINGS None ?d empty_world =
      (Inr ''Glossary/gpu'', ?w')"
    by code_simp
  have stem: "\<not> occurs_in ''.md'' (getTargetFolder DEFAULT_SETTINGS None @ ''/'' @ ''gpu'')"
    by code_simp
  have sel: "''A GPU is fast'' \<noteq> []"
    by simp
  have linked: "createSmartLink ''A GPU is fast'' (JStr ''gpu'') = Inr ''A [[gpu|GPU]] is fast''"
    by code_simp
  have plain: "\<not> occurs_in ''[object Object]'' ''A [[gpu|GPU]] is fast''"
    by code_simp
  show ?thesis
    using created stem sel linked plain
      createDefinitionNote_identifier
        [OF typed created, of "''A GPU is fast''" "''A [[gpu|GPU]] is fast''"]
    by simp
qed

text \<open>
  Claim C1 fails as stated. The payload \<^verbatim>\<open>{}\<close> parses, has neither \<^verbatim>\<open>term\<close> nor \<^verbatim>\<open>definition\<close>,
  and is returned by the parser as it is; the run then creates the folder and the note
  \<^verbatim>\<open>Glossary/undefined.md\<close> before it fails at the linking step. With both fields present
  and empty the run completes.
\<close>

theorem getDefinitionFromLLM_unchecked_counterexample:
  "getDefinitionFromLLM (ParsedJSON (JObj [])) = JObj [] \<and>
   js_get (JObj []) ''term'' = Inr JUndefined \<and>
   js_get (JObj []) ''definition'' = Inr JUndefined \<and>
   handleTermDefinition DEFAULT_SETTINGS None ''A GPU is fast'' (ParsedJSON (JObj []))
       empty_world =
     \<lparr>folders = [''Glossary''],
      files = [(''Glossary/undefined.md'', [CHR 0x0A, CHR 0x0A])],
      effects = [CreateFolder ''Glossary'',
                 CreateFile ''Glossary/undefined.md'' [CHR 0x0A, CHR 0x0A],
                 Notice ''Error creating term definition'']\<rparr> \<and>
   handleTermDefinition DEFAULT_SETTINGS None ''A GPU is fast''
       (ParsedJSON (JObj [(''term'', JStr []), (''definition'', JStr [])])) empty_world =
     \<lparr>folders = [''Glossary''],
      files = [(''Glossary/.md'', [CHR 0x0A, CHR 0x0A])],
      effects = [CreateFolder ''Glossary'',
                 CreateFile ''Glossary/.md'' [CHR 0x0A, CHR 0x0A],
                 ReplaceSelection ''[[|]]A GPU is fast'',
                 Notice ''Term definition created successfully'']\<rparr>"
  by code_simp

lemma handleTermDefinition_falsy:
  assumes "\<not> truthy (getDefinitionFromLLM reply)"
  shows "handleTermDefinition settings af selectedText reply w =
     notice (if selectedText = [] then ''No text selected''
             else ''Failed to get definition from API'') w"
  using assms by (simp add: handleTermDefinition_def)

text \<open>
  Claim C1, amended. The parser returns \<^verbatim>\<open>null\<close> exactly when the request or the JSON
  parsing threw, or the payload is the JSON value \<^verbatim>\<open>null\<close>; the fields \<^verbatim>\<open>term\<close> and \<^verbatim>\<open>definition\<close> are
  not looked at. Whenever the parser's result is falsy the run aborts before any vault
  mutation: folders and files are unchanged, and the only effect is one notice.
\<close>

theorem getDefinitionFromLLM_null_aborts:
  "(getDefinitionFromLLM reply = JNull) =
     (reply = RequestFailed \<or> reply = MalformedJSON \<or> reply = ParsedJSON JNull) \<and>
   (\<not> truthy (getDefinitionFromLLM reply) \<longrightarrow>
      folders (handleTermDefinition settings af selectedText reply w) = folders w \<and>
      files (handleTermDefinition settings af selectedText reply w) = files w \<and>
      effects (handleTermDefinition settings af selectedText reply w) =
        effects w @
        [Notice (if selectedText = [] then ''No text selected''
                 else ''Failed to get definition from API'')])"
proof (intro conjI impI)
  show "(getDefinitionFromLLM reply = JNull) =
     (reply = RequestFailed \<or> reply = MalformedJSON \<or> reply = ParsedJSON JNull)"
    by (cases reply) simp_all
next
  assume "\<not> truthy (getDefinitionFromLLM reply)"
  then show "folders (handleTermDefinition settings af selectedText reply w) = folders w"
    by (simp add: handleTermDefinition_falsy notice_fields)
next
  assume "\<not> truthy (getDefinitionFromLLM reply)"
  then show "files (handleTermDefinition settings af selectedText reply w) = files w"
    by (simp add: handleTermDefinition_falsy notice_fields)
next
  assume "\<not> truthy (getDefinitionFromLLM reply)"
  then show "effects (handleTermDefinition settings af selectedText reply w) =
        effects w @
        [Notice (if selectedText = [] then ''No text selected''
                 else ''Failed to get definition from API'')]"
    by (simp add: handleTermDefinition_falsy notice_fields)
qed

text \<open>A payload that is not JSON, and the falsy payload \<^verbatim>\<open>""\<close>.\<close>

theorem getDefinitionFromLLM_null_aborts_witness:
  "getDefinitionFromLLM MalformedJSON = JNull \<and>
   \<not> truthy (getDefinitionFromLLM (ParsedJSON (JStr []))) \<and>
   folders (handleTermDefinition DEFAULT_SETTINGS None ''A GPU is fast'' MalformedJSON
      empty_world) = [] \<and>
   files (handleTermDefinition DEFAULT_SETTINGS None ''A GPU is fast'' MalformedJSON
      empty_world) = [] \<and>
   effects (handleTermDefinition DEFAULT_SETTINGS None ''A GPU is fast'' MalformedJSON
      empty_world) = [Notice ''Failed to get definition from API''] \<and>
   effects (handleTermDefinition DEFAULT_SETTINGS None ''A GPU is fast''
      (ParsedJSON (JStr [])) empty_world) = [Notice ''Failed to get definition from API'']"
proof -
  have falsy: "\<not> truthy (getDefinitionFromLLM MalformedJSON)"
    "\<not> truthy (getDefinitionFromLLM (ParsedJSON (JStr [])))"
    by simp_all
  have e: "folders empty_world = []" "files empty_world = []" "effects empty_world = []"
    by (simp_all add: empty_world_def)
  show ?thesis
    using falsy e
      getDefinitionFromLLM_null_aborts
        [of MalformedJSON DEFAULT_SETTINGS None "''A GPU is fast''" empty_world]
      getDefinitionFromLLM_null_aborts
        [of "ParsedJSON (JStr [])" DEFAULT_SETTINGS None "''A GPU is fast''" empty_world]
    by simp
qed

text \<open>
  Claim C2 at a selection that contains \<^verbatim>\<open>[object Object]\<close>. Line 90 calls \<^verbatim>\<open>replace\<close> on the
  linked text with the rendering of the definition object as the search string and no
  replacement, so the editor receives \<^verbatim>\<open>undefined\<close> in the place of \<^verbatim>\<open>[object Object]\<close>: not
  the output of the smart linker.
\<close>

theorem handleTermDefinition_replaces_rendering:
  "createSmartLink ''[object Object] needs a GPU'' (JStr ''gpu'') =
     Inr ''[object Object] needs a [[gpu|GPU]]'' \<and>
   effects (handleTermDefinition DEFAULT_SETTINGS None ''[object Object] needs a GPU''
      (ParsedJSON (JObj [(''term'', JStr ''gpu''), (''definition'', JStr ''a graphics processor'')]))
      empty_world) =
     [CreateFolder ''Glossary'',
      CreateFile ''Glossary/gpu.md'' (''a graphics processor'' @ [CHR 0x0A, CHR 0x0A]),
      ReplaceSelection ''undefined needs a [[gpu|GPU]]'',
      Notice ''Term definition created successfully'']"
  by code_simp

end
